theory Spec2Isabelle
  imports Complex_Main
begin

text \<open>
  A model of the typography playground's page component: the settings record, the two tables
  of ramp algorithms, the sizes per viewport, the three export generators and the handler
  that imports markdown for the preview, followed by the properties proved of them.
\<close>

section \<open>Numbers\<close>

text \<open>
  A TypeScript \<open>number\<close> is modelled as an exact real number: the formulas below are read
  as arithmetic on the reals, so rounding error, NaN and the infinities of IEEE doubles are
  outside the model. \<open>Math.round\<close> returns the integer closest to its argument, and of two
  equally close integers the one towards plus infinity; that is the floor of \<open>x + 1/2\<close>.
\<close>

type_synonym number = real

definition Math_round :: "number \<Rightarrow> number" where
  "Math_round x = of_int \<lfloor>x + 1 / 2\<rfloor>"

section \<open>Typography settings\<close>

record TypographySettings =
  baseFontSize :: number
  baseLineHeight :: number
  scaleRatio :: number
  paragraphSpacing :: number
  headingSpacing :: number
  listSpacing :: number
  rampAlgorithm :: string
  minFontSize :: number
  maxFontSize :: number
  customRampValues :: "number list"
  responsiveScaling :: bool
  mobileScaleFactor :: number
  tabletScaleFactor :: number
  breakpointMobile :: number
  breakpointTablet :: number
  fontFamily :: string
  headingFontFamily :: string
  useSeparateHeadingFont :: bool
  baseFontWeight :: number
  fontWeightRampAlgorithm :: string
  minFontWeight :: number
  maxFontWeight :: number
  customWeightRampValues :: "number list"
  useWeightRamp :: bool

text \<open>
  The unions of string literals: the viewport of the preview, the visualization mode (none
  or spacing) and the export format (css, sass or figma).
\<close>

datatype ViewportSize = mobile | tablet | desktop

datatype VisualizationMode = visualization_none | visualization_spacing

datatype ExportFormat = format_css | format_sass | format_figma


record WeightRampAlgorithm =
  weightName :: string
  weightDescription :: string
  calculateWeights :: "TypographySettings \<Rightarrow> number list"

section \<open>Font weight ramp algorithms\<close>

definition weightRampAlgorithms_stepped :: WeightRampAlgorithm where
  "weightRampAlgorithms_stepped = \<lparr>
     weightName = ''Stepped Weights'',
     weightDescription = ''Uses predefined weight steps for each heading level'',
     calculateWeights = (\<lambda>settings.
       if useWeightRamp settings then customWeightRampValues settings
       else [700, 700, 600, 600, 500, 400]) \<rparr>"

definition weightRampAlgorithms_linear :: WeightRampAlgorithm where
  "weightRampAlgorithms_linear = \<lparr>
     weightName = ''Linear Weight Scale'',
     weightDescription = ''Equal steps between min and max font weights'',
     calculateWeights = (\<lambda>settings.
       if \<not> useWeightRamp settings then [700, 700, 600, 600, 500, 400]
       else
         let step = (maxFontWeight settings - minFontWeight settings) / 5
         in [Math_round (maxFontWeight settings),
             Math_round (maxFontWeight settings - step),
             Math_round (maxFontWeight settings - 2 * step),
             Math_round (maxFontWeight settings - 3 * step),
             Math_round (maxFontWeight settings - 4 * step),
             Math_round (minFontWeight settings)]) \<rparr>"

definition weightRampAlgorithms_custom :: WeightRampAlgorithm where
  "weightRampAlgorithms_custom = \<lparr>
     weightName = ''Custom Weight Ramp'',
     weightDescription = ''Define your own custom weight values for each heading level'',
     calculateWeights = (\<lambda>settings.
       if useWeightRamp settings then customWeightRampValues settings
       else [700, 700, 600, 600, 500, 400]) \<rparr>"

text \<open>
  The table is a \<open>Record<string, WeightRampAlgorithm>\<close>: reading a key it does not hold gives
  \<open>undefined\<close>, here \<open>None\<close>.
\<close>

definition weightRampAlgorithms :: "string \<rightharpoonup> WeightRampAlgorithm" where
  "weightRampAlgorithms =
     [''stepped'' \<mapsto> weightRampAlgorithms_stepped,
      ''linear'' \<mapsto> weightRampAlgorithms_linear,
      ''custom'' \<mapsto> weightRampAlgorithms_custom]"

section \<open>Ramp algorithms\<close>






definition defaultSettings :: TypographySettings where
  "defaultSettings = \<lparr>
     baseFontSize = 16,
     baseLineHeight = 1.5,
     scaleRatio = 1.2,
     paragraphSpacing = 1.5,
     headingSpacing = 1,
     listSpacing = 1,
     rampAlgorithm = ''modular'',
     minFontSize = 14,
     maxFontSize = 48,
     customRampValues = [48, 36, 24, 20, 16, 14],
     responsiveScaling = True,
     mobileScaleFactor = 0.75,
     tabletScaleFactor = 0.9,
     breakpointMobile = 480,
     breakpointTablet = 768,
     fontFamily = ''Inter'',
     headingFontFamily = ''Inter'',
     useSeparateHeadingFont = False,
     baseFontWeight = 400,
     fontWeightRampAlgorithm = ''stepped'',
     minFontWeight = 400,
     maxFontWeight = 700,
     customWeightRampValues = [700, 700, 600, 600, 500, 400],
     useWeightRamp = True \<rparr>"

section \<open>The page component\<close>

text \<open>
  The component \<open>Home\<close> holds the settings and the other pieces of interface state. The
  functions below are closures of the component: they read \<open>settings\<close> from its state.
\<close>

record Home_state =
  settings :: TypographySettings
  activeTab :: string
  exportFormat :: ExportFormat
  copySuccess :: string
  previewViewport :: ViewportSize
  importMarkdownOpen :: bool
  exportDialogOpen :: bool
  markdownInput :: string
  visualizationMode :: VisualizationMode
  previewContent :: string

text \<open>
  Calling a method of \<open>undefined\<close> throws a \<open>TypeError\<close>; that is what happens when a table
  is read at a name it does not hold and when \<open>toString\<close> is called on a missing list entry.
\<close>

datatype js_error = TypeError



definition calculateFontWeights :: "Home_state \<Rightarrow> js_error + number list" where
  "calculateFontWeights st =
     (case weightRampAlgorithms (fontWeightRampAlgorithm (settings st)) of
        None \<Rightarrow> Inl TypeError
      | Some algorithm \<Rightarrow> Inr (calculateWeights algorithm (settings st)))"




section \<open>Strings built by the exports\<close>








section \<open>Export generators\<close>

text \<open>
  Each generator starts by choosing the weights it prints: the selected algorithm's weights
  when the weight ramp is in use, the fixed list otherwise. The three generators hold the
  same expression.
\<close>

definition fontWeights :: "Home_state \<Rightarrow> js_error + number list" where
  "fontWeights st =
     (if useWeightRamp (settings st)
      then (case weightRampAlgorithms (fontWeightRampAlgorithm (settings st)) of
              None \<Rightarrow> Inl TypeError
            | Some algorithm \<Rightarrow> Inr (calculateWeights algorithm (settings st)))
      else Inr [700, 700, 600, 600, 500, 400])"






section \<open>Reading values back from an export\<close>









section \<open>Importing markdown for the preview\<close>

text \<open>
  \<open>markdownToHtml\<close> hands the text to a processor assembled from the remark and rehype
  packages and returns the processed file as a string. The processor is a parameter: it
  either rejects with an error or resolves with the markup.
\<close>

definition markdownToHtml :: "(string \<Rightarrow> 'e + string) \<Rightarrow> string \<Rightarrow> 'e + string" where
  "markdownToHtml process markdown =
     (case process markdown of Inl err \<Rightarrow> Inl err | Inr file \<Rightarrow> Inr file)"

text \<open>
  The click handler of the Import button awaits the conversion inside \<open>try\<close>. It returns
  the next state of the component and what it did besides: writing to the console and
  raising an alert.
\<close>

datatype effect = console_error string | alert string

definition Import_onClick :: "(string \<Rightarrow> 'e + string) \<Rightarrow> Home_state \<Rightarrow> Home_state \<times> effect list" where
  "Import_onClick process st =
     (case markdownToHtml process (markdownInput st) of
        Inr html \<Rightarrow> (st\<lparr>previewContent := html, importMarkdownOpen := False\<rparr>, [])
      | Inl error \<Rightarrow>
          (st, [console_error ''Error converting markdown to HTML:'',
                alert ''Error parsing markdown. Please check your input.'']))"

text \<open>
  The state of the component when it is first rendered; the default preview markup is a
  long constant of the source and is a parameter here.
\<close>

definition initialState :: "string \<Rightarrow> Home_state" where
  "initialState defaultPreviewContent = \<lparr>
     settings = defaultSettings,
     activeTab = ''basic'',
     exportFormat = format_css,
     copySuccess = [],
     previewViewport = desktop,
     importMarkdownOpen = False,
     exportDialogOpen = False,
     markdownInput = [],
     visualizationMode = visualization_none,
     previewContent = defaultPreviewContent \<rparr>"

section \<open>Rounding\<close>






section \<open>The ramp algorithms\<close>








section \<open>The weight ramp algorithms\<close>

text \<open>
  C9. The stepped and the custom weight ramps compute the same list for every settings
  record: \<open>customWeightRampValues\<close> when the weight ramp is in use, the default list
  otherwise.
\<close>

theorem stepped_eq_custom:
  "weightRampAlgorithms ''stepped'' = Some weightRampAlgorithms_stepped \<and>
   weightRampAlgorithms ''custom'' = Some weightRampAlgorithms_custom \<and>
   calculateWeights weightRampAlgorithms_stepped s = calculateWeights weightRampAlgorithms_custom s \<and>
   calculateWeights weightRampAlgorithms_custom s =
     (if useWeightRamp s then customWeightRampValues s else [700, 700, 600, 600, 500, 400])"
  by (simp add: weightRampAlgorithms_def weightRampAlgorithms_stepped_def
      weightRampAlgorithms_custom_def)

text \<open>
  C10. When the weight ramp is not in use, each of the three weight ramp algorithms returns
  \<open>[700, 700, 600, 600, 500, 400]\<close> whatever \<open>minFontWeight\<close>, \<open>maxFontWeight\<close> and
  \<open>customWeightRampValues\<close> are. So the weights the export generators print, which fall back
  to that list when the weight ramp is not in use, are always the weights of the selected
  algorithm.
\<close>

theorem weight_ramp_off_default:
  assumes "fontWeightRampAlgorithm (settings st) \<in> {''stepped'', ''linear'', ''custom''}"
  shows "(\<not> useWeightRamp (settings st) \<longrightarrow>
      (\<forall>algorithm \<in> {weightRampAlgorithms_stepped, weightRampAlgorithms_linear,
                      weightRampAlgorithms_custom}.
         \<forall>lo hi ws. calculateWeights algorithm
           ((settings st)\<lparr>minFontWeight := lo, maxFontWeight := hi, customWeightRampValues := ws\<rparr>)
           = [700, 700, 600, 600, 500, 400]) \<and>
      calculateFontWeights st = Inr [700, 700, 600, 600, 500, 400]) \<and>
    fontWeights st = calculateFontWeights st"
  using assms
  by (auto simp: weightRampAlgorithms_def weightRampAlgorithms_stepped_def
      weightRampAlgorithms_linear_def weightRampAlgorithms_custom_def calculateFontWeights_def
      fontWeights_def)

theorem weight_ramp_off_default_witness:
  "fontWeightRampAlgorithm (settings ((initialState [])\<lparr>settings :=
       defaultSettings\<lparr>fontWeightRampAlgorithm := ''linear'', useWeightRamp := False\<rparr>\<rparr>))
     \<in> {''stepped'', ''linear'', ''custom''} \<and>
   calculateFontWeights ((initialState [])\<lparr>settings :=
       defaultSettings\<lparr>fontWeightRampAlgorithm := ''linear'', useWeightRamp := False\<rparr>\<rparr>)
     = Inr [700, 700, 600, 600, 500, 400] \<and>
   fontWeights ((initialState [])\<lparr>settings :=
       defaultSettings\<lparr>fontWeightRampAlgorithm := ''linear'', useWeightRamp := False\<rparr>\<rparr>)
     = Inr [700, 700, 600, 600, 500, 400]"
  using weight_ramp_off_default [of "(initialState [])\<lparr>settings :=
       defaultSettings\<lparr>fontWeightRampAlgorithm := ''linear'', useWeightRamp := False\<rparr>\<rparr>"]
  by simp

section \<open>Sizes per viewport\<close>






section \<open>Importing markdown\<close>

text \<open>
  C3. When the conversion of the imported text fails, the Import handler leaves the preview
  content (and the rest of the state) as it was and raises an alert; when it succeeds, the
  preview content becomes the converted markup and no alert is raised. So the handler
  changes the preview content only when the conversion has succeeded.
\<close>

theorem Import_onClick_failure_keeps_preview:
  "(\<forall>error. markdownToHtml process (markdownInput st) = Inl error \<longrightarrow>
      previewContent (fst (Import_onClick process st)) = previewContent st \<and>
      fst (Import_onClick process st) = st \<and>
      alert ''Error parsing markdown. Please check your input.''
        \<in> set (snd (Import_onClick process st))) \<and>
   (\<forall>html. markdownToHtml process (markdownInput st) = Inr html \<longrightarrow>
      previewContent (fst (Import_onClick process st)) = html \<and>
      snd (Import_onClick process st) = []) \<and>
   (previewContent (fst (Import_onClick process st)) \<noteq> previewContent st \<longrightarrow>
      (\<exists>html. markdownToHtml process (markdownInput st) = Inr html))"
  by (cases "markdownToHtml process (markdownInput st)") (simp_all add: Import_onClick_def)

theorem Import_onClick_failure_keeps_preview_witness:
  "markdownToHtml (\<lambda>markdown. if markdown = [] then Inl ''empty'' else Inr (''<p>'' @ markdown @ ''</p>''))
      (markdownInput (initialState ''<h1>Preview</h1>'')) = Inl ''empty'' \<and>
   previewContent (fst (Import_onClick
      (\<lambda>markdown. if markdown = [] then Inl ''empty'' else Inr (''<p>'' @ markdown @ ''</p>''))
      (initialState ''<h1>Preview</h1>''))) = ''<h1>Preview</h1>'' \<and>
   alert ''Error parsing markdown. Please check your input.''
     \<in> set (snd (Import_onClick
      (\<lambda>markdown. if markdown = [] then Inl ''empty'' else Inr (''<p>'' @ markdown @ ''</p>''))
      (initialState ''<h1>Preview</h1>''))) \<and>
   markdownToHtml (\<lambda>markdown. if markdown = [] then Inl ''empty'' else Inr (''<p>'' @ markdown @ ''</p>''))
      (markdownInput ((initialState ''<h1>Preview</h1>'')\<lparr>markdownInput := ''text''\<rparr>))
     = Inr ''<p>text</p>'' \<and>
   previewContent (fst (Import_onClick
      (\<lambda>markdown. if markdown = [] then Inl ''empty'' else Inr (''<p>'' @ markdown @ ''</p>''))
      ((initialState ''<h1>Preview</h1>'')\<lparr>markdownInput := ''text''\<rparr>))) = ''<p>text</p>''"
proof -
  let ?process = "\<lambda>markdown. if markdown = [] then Inl ''empty'' else Inr (''<p>'' @ markdown @ ''</p>'')"
  have failure: "markdownToHtml ?process (markdownInput (initialState ''<h1>Preview</h1>''))
      = Inl ''empty''"
    by (simp add: markdownToHtml_def initialState_def)
  have success: "markdownToHtml ?process
      (markdownInput ((initialState ''<h1>Preview</h1>'')\<lparr>markdownInput := ''text''\<rparr>))
      = Inr ''<p>text</p>''"
    by (simp add: markdownToHtml_def)
  have preview: "previewContent (initialState ''<h1>Preview</h1>'') = ''<h1>Preview</h1>''"
    by (simp add: initialState_def)
  from failure success preview
    Import_onClick_failure_keeps_preview [of ?process "initialState ''<h1>Preview</h1>''"]
    Import_onClick_failure_keeps_preview
      [of ?process "(initialState ''<h1>Preview</h1>'')\<lparr>markdownInput := ''text''\<rparr>"]
  show ?thesis
    by simp
qed

section \<open>The exports depend on the settings alone\<close>



section \<open>What the three exports show\<close>











end
